theory Spec2Isabelle
  imports
    Complex_Main
    "HOL-Library.Word"
    "HOL-Library.Char_ord"
    "HOL-Library.List_Lexorder"
    "HOL-Library.Option_ord"
    "HOL-Library.Product_Lexorder"
begin

section \<open>The sales notebook: tables, column expressions and the four stages\<close>

text \<open>
  The notebook \<^verbatim>\<open>Databricks_Data_Transformations_Project.py\<close> builds one DataFrame from
  ten literal rows and refines it in three steps: cleaning (\<^verbatim>\<open>na.fill\<close>, \<^verbatim>\<open>filter\<close>),
  feature engineering (two \<^verbatim>\<open>withColumn\<close> calls) and aggregation (two
  \<^verbatim>\<open>groupBy(...).agg(...).orderBy(...)\<close> queries).  Every DataFrame of the notebook is a
  value computed from the previous one, so each is modelled here as a function of its
  predecessor, under the name the notebook gives it.  A DataFrame is the list of its rows.
\<close>

subsection \<open>Schema\<close>

text \<open>
  \<^verbatim>\<open>sales_schema\<close> declares seven fields, every one of them with the nullable flag
  \<^verbatim>\<open>True\<close>: a field holds a value or SQL \<^verbatim>\<open>NULL\<close> (Python \<^verbatim>\<open>None\<close>), which is
  \<open>None\<close> here.  \<^verbatim>\<open>StringType\<close> is \<open>string\<close>, \<^verbatim>\<open>IntegerType\<close> is a signed 32-bit
  integer.  \<^verbatim>\<open>DoubleType\<close> is the type parameter \<open>'d\<close>: the notebook never looks inside
  a double, it only hands doubles to Spark's arithmetic, which is the parameter \<open>A\<close>
  of the stages below.
\<close>

record 'd sales_row =
  order_id :: "string option"
  customer_name :: "string option"
  item :: "string option"
  quantity :: "32 word option"
  price_per_unit :: "'d option"
  region :: "string option"
  status :: "string option"

text \<open>\<^verbatim>\<open>withColumn\<close> with a fresh name appends one column to every row.\<close>

record 'd priced_row = "'d sales_row" +
  total_price :: "'d option"

record 'd named_row = "'d priced_row" +
  customer_full_name :: "string option"

text \<open>The rows of the two aggregate DataFrames.\<close>

record 'd region_sales =
  rs_region :: "string option"
  total_regional_sales :: "'d option"

record status_region_orders =
  so_region :: "string option"
  so_status :: "string option"
  number_of_orders :: nat

subsection \<open>Spark's arithmetic on doubles\<close>

text \<open>
  The operations on \<^verbatim>\<open>DoubleType\<close> that the notebook calls: the zero that starts a
  \<^verbatim>\<open>sum\<close>, \<^verbatim>\<open>cast(DoubleType())\<close> of an integer, \<^verbatim>\<open>*\<close>, the \<^verbatim>\<open>+\<close> inside
  \<^verbatim>\<open>sum\<close>, and \<^verbatim>\<open>round(_, scale)\<close>.
\<close>

record 'd arith =
  dzero :: 'd
  cast_int :: "32 word \<Rightarrow> 'd"
  dmul :: "'d \<Rightarrow> 'd \<Rightarrow> 'd"
  dadd :: "'d \<Rightarrow> 'd \<Rightarrow> 'd"
  dround :: "nat \<Rightarrow> 'd \<Rightarrow> 'd"

text \<open>
  Exact decimal arithmetic: a double is the rational number it denotes, sums and products
  are exact, and \<^verbatim>\<open>round\<close> rounds half away from zero (Spark's \<^verbatim>\<open>round\<close> is
  \<^verbatim>\<open>HALF_UP\<close>; \<^verbatim>\<open>bround\<close> would be half-even).  Binary64 rounding error, infinities
  and NaN are outside this instance.
\<close>

definition round_half_up :: "nat \<Rightarrow> rat \<Rightarrow> rat" where
  "round_half_up s x = sgn x * of_int \<lfloor>\<bar>x\<bar> * 10 ^ s + 1 / 2\<rfloor> / 10 ^ s"

definition decimal_arith :: "rat arith" where
  "decimal_arith =
     \<lparr>dzero = 0, cast_int = (\<lambda>w. of_int (sint w)), dmul = (*), dadd = (+),
      dround = round_half_up\<rparr>"

subsection \<open>Column expressions with SQL nulls\<close>

text \<open>\<^verbatim>\<open>a != b\<close>: \<^verbatim>\<open>NULL\<close> as soon as one side is.\<close>

definition sql_neq :: "'a option \<Rightarrow> 'a option \<Rightarrow> bool option" where
  "sql_neq a b = (case a of None \<Rightarrow> None
                  | Some x \<Rightarrow> (case b of None \<Rightarrow> None | Some y \<Rightarrow> Some (x \<noteq> y)))"

text \<open>\<^verbatim>\<open>df.filter(c)\<close> keeps the rows on which \<open>c\<close> is true; false and \<^verbatim>\<open>NULL\<close> drop.\<close>

definition df_filter :: "('r \<Rightarrow> bool option) \<Rightarrow> 'r list \<Rightarrow> 'r list" where
  "df_filter c t = filter (\<lambda>r. c r = Some True) t"

text \<open>\<^verbatim>\<open>na.fill(v, subset=["quantity"])\<close>: the column becomes \<^verbatim>\<open>coalesce(quantity, v)\<close>.\<close>

definition na_fill_quantity :: "32 word \<Rightarrow> 'd sales_row \<Rightarrow> 'd sales_row" where
  "na_fill_quantity v r =
     r\<lparr>quantity := Some (case quantity r of None \<Rightarrow> v | Some q \<Rightarrow> q)\<rparr>"

text \<open>\<^verbatim>\<open>cast\<close>, \<^verbatim>\<open>*\<close> and \<^verbatim>\<open>round\<close> are \<^verbatim>\<open>NULL\<close> on a \<^verbatim>\<open>NULL\<close> operand.\<close>

definition sql_cast_double :: "'d arith \<Rightarrow> 32 word option \<Rightarrow> 'd option" where
  "sql_cast_double A q = map_option (cast_int A) q"

definition sql_mul :: "'d arith \<Rightarrow> 'd option \<Rightarrow> 'd option \<Rightarrow> 'd option" where
  "sql_mul A a b = (case a of None \<Rightarrow> None
                    | Some x \<Rightarrow> (case b of None \<Rightarrow> None | Some y \<Rightarrow> Some (dmul A x y)))"

definition spark_round :: "'d arith \<Rightarrow> 'd option \<Rightarrow> nat \<Rightarrow> 'd option" where
  "spark_round A x s = map_option (dround A s) x"

text \<open>\<^verbatim>\<open>concat(a, b)\<close>: \<^verbatim>\<open>NULL\<close> when an argument is, the joined string otherwise.\<close>

definition sql_concat :: "string option \<Rightarrow> string option \<Rightarrow> string option" where
  "sql_concat a b = (case a of None \<Rightarrow> None
                     | Some x \<Rightarrow> (case b of None \<Rightarrow> None | Some y \<Rightarrow> Some (x @ y)))"

definition lit :: "'a \<Rightarrow> 'a option" where
  "lit v = Some v"

text \<open>
  The aggregate \<^verbatim>\<open>sum\<close>: the buffer starts \<^verbatim>\<open>NULL\<close>; a \<^verbatim>\<open>NULL\<close> input leaves it
  as it is, a value \<open>v\<close> makes it \<^verbatim>\<open>coalesce(buffer, 0) + v\<close>.  Rows are taken in table
  order.
\<close>

definition sum_update :: "'d arith \<Rightarrow> 'd option \<Rightarrow> 'd option \<Rightarrow> 'd option" where
  "sum_update A acc x =
     (case x of None \<Rightarrow> acc
      | Some v \<Rightarrow> Some (dadd A (case acc of None \<Rightarrow> dzero A | Some s \<Rightarrow> s) v))"

definition sql_sum :: "'d arith \<Rightarrow> 'd option list \<Rightarrow> 'd option" where
  "sql_sum A xs = foldl (sum_update A) None xs"

text \<open>The aggregate \<^verbatim>\<open>count(col)\<close> counts the rows where the column is not \<^verbatim>\<open>NULL\<close>.\<close>

definition sql_count :: "'a option list \<Rightarrow> nat" where
  "sql_count xs = length (filter (\<lambda>x. x \<noteq> None) xs)"

text \<open>
  \<^verbatim>\<open>groupBy(key)\<close>: one pass over the rows, each row joining the group of its key or
  opening a new one.  \<^verbatim>\<open>NULL\<close> keys form a group of their own.
\<close>

fun add_to_group :: "'k \<Rightarrow> 'r \<Rightarrow> ('k \<times> 'r list) list \<Rightarrow> ('k \<times> 'r list) list" where
  "add_to_group k r [] = [(k, [r])]"
| "add_to_group k r ((k', rs) # gs) =
     (if k = k' then (k', rs @ [r]) # gs else (k', rs) # add_to_group k r gs)"

definition group_by :: "('r \<Rightarrow> 'k) \<Rightarrow> 'r list \<Rightarrow> ('k \<times> 'r list) list" where
  "group_by key t = foldl (\<lambda>gs r. add_to_group (key r) r gs) [] t"

subsection \<open>The input\<close>

definition raw_sales_data :: "rat sales_row list" where
  "raw_sales_data =
    [\<lparr>order_id = Some ''ORD001'', customer_name = Some ''Alice Smith'', item = Some ''Laptop'',
      quantity = Some 1, price_per_unit = Some 1200.50, region = Some ''North'',
      status = Some ''Completed''\<rparr>,
     \<lparr>order_id = Some ''ORD002'', customer_name = Some ''Bob Johnson'', item = Some ''Mouse'',
      quantity = Some 2, price_per_unit = Some 25.00, region = Some ''South'',
      status = Some ''Pending''\<rparr>,
     \<lparr>order_id = Some ''ORD003'', customer_name = Some ''Charlie Brown'',
      item = Some ''Keyboard'', quantity = Some 1, price_per_unit = Some 75.25,
      region = Some ''East'', status = Some ''Completed''\<rparr>,
     \<lparr>order_id = Some ''ORD004'', customer_name = Some ''Alice Smith'', item = Some ''Monitor'',
      quantity = Some 1, price_per_unit = Some 300.00, region = Some ''North'',
      status = Some ''Pending''\<rparr>,
     \<lparr>order_id = Some ''ORD005'', customer_name = Some ''Eve Davis'',
      item = Some ''Laptop Bag'', quantity = Some 1, price_per_unit = Some 45.00,
      region = Some ''West'', status = Some ''Cancelled''\<rparr>,
     \<lparr>order_id = Some ''ORD006'', customer_name = Some ''Bob Johnson'',
      item = Some ''Headphones'', quantity = Some 3, price_per_unit = Some 50.00,
      region = Some ''South'', status = Some ''Completed''\<rparr>,
     \<lparr>order_id = Some ''ORD007'', customer_name = Some ''Grace Lee'', item = Some ''Webcam'',
      quantity = Some 1, price_per_unit = Some 60.00, region = Some ''East'',
      status = Some ''Completed''\<rparr>,
     \<lparr>order_id = Some ''ORD008'', customer_name = Some ''Frank White'', item = Some ''Mouse'',
      quantity = None, price_per_unit = Some 25.00, region = Some ''North'',
      status = Some ''Completed''\<rparr>,
     \<lparr>order_id = Some ''ORD009'', customer_name = Some ''Charlie Brown'',
      item = Some ''External SSD'', quantity = Some 1, price_per_unit = Some 99.99,
      region = Some ''East'', status = Some ''Pending''\<rparr>,
     \<lparr>order_id = Some ''ORD010'', customer_name = Some ''Alice Smith'', item = Some ''Webcam'',
      quantity = Some 1, price_per_unit = Some 60.00, region = Some ''North'',
      status = Some ''Completed''\<rparr>]"

subsection \<open>Step 1: cleaning\<close>

definition df_cleaned_quantity :: "'d sales_row list \<Rightarrow> 'd sales_row list" where
  "df_cleaned_quantity df_raw_sales = map (na_fill_quantity 0) df_raw_sales"

definition cancelled_filter :: "'d sales_row list \<Rightarrow> 'd sales_row list" where
  "cancelled_filter df = df_filter (\<lambda>r. sql_neq (status r) (lit ''Cancelled'')) df"

definition df_filtered_orders :: "'d sales_row list \<Rightarrow> 'd sales_row list" where
  "df_filtered_orders df_raw_sales = cancelled_filter (df_cleaned_quantity df_raw_sales)"

subsection \<open>Step 2: feature engineering\<close>

definition with_total_price :: "'d arith \<Rightarrow> 'd sales_row \<Rightarrow> 'd priced_row" where
  "with_total_price A r =
     sales_row.extend r
       (priced_row.fields
          (spark_round A
             (sql_mul A (sql_cast_double A (quantity r)) (price_per_unit r)) 2))"

definition df_with_total_price :: "'d arith \<Rightarrow> 'd sales_row list \<Rightarrow> 'd priced_row list" where
  "df_with_total_price A df_filtered = map (with_total_price A) df_filtered"

definition with_customer_full_name :: "'d priced_row \<Rightarrow> 'd named_row" where
  "with_customer_full_name r =
     priced_row.extend r (named_row.fields (sql_concat (customer_name r) (lit '''')))"

definition df_with_customer_full_name :: "'d priced_row list \<Rightarrow> 'd named_row list" where
  "df_with_customer_full_name df_priced = map with_customer_full_name df_priced"

text \<open>The derived table of a cleaned table: both \<^verbatim>\<open>withColumn\<close> calls.\<close>

definition derive :: "'d arith \<Rightarrow> 'd sales_row list \<Rightarrow> 'd named_row list" where
  "derive A df_filtered = df_with_customer_full_name (df_with_total_price A df_filtered)"

subsection \<open>Step 3: aggregation\<close>

definition df_sales_by_region :: "'d arith \<Rightarrow> 'd named_row list \<Rightarrow> 'd region_sales list" where
  "df_sales_by_region A df =
     sort_key rs_region
       (map (\<lambda>(k, rs). \<lparr>rs_region = k,
                        total_regional_sales =
                          spark_round A (sql_sum A (map total_price rs)) 2\<rparr>)
          (group_by region df))"

definition df_orders_by_status_region :: "'d named_row list \<Rightarrow> status_region_orders list" where
  "df_orders_by_status_region df =
     sort_key (\<lambda>g. (so_region g, so_status g))
       (map (\<lambda>((k, s), rs). \<lparr>so_region = k, so_status = s,
                             number_of_orders = sql_count (map order_id rs)\<rparr>)
          (group_by (\<lambda>r. (region r, status r)) df))"

subsection \<open>Row counts and sample rows used in the statements\<close>

definition count_cancelled :: "'d sales_row list \<Rightarrow> nat" where
  "count_cancelled t = length (filter (\<lambda>r. status r = Some ''Cancelled'') t)"

definition count_null_status :: "'d sales_row list \<Rightarrow> nat" where
  "count_null_status t = length (filter (\<lambda>r. status r = None) t)"

definition count_null_order_id :: "('d, 'z) sales_row_scheme list \<Rightarrow> nat" where
  "count_null_order_id t = length (filter (\<lambda>r. order_id r = None) t)"


text \<open>
  Three rows that \<^verbatim>\<open>sales_schema\<close> admits (each field is nullable) and that the ten
  literal rows do not exercise: an order with no status, one with no price, one with no
  identifier.
\<close>

definition order_without_status :: "rat sales_row" where
  "order_without_status =
     \<lparr>order_id = Some ''ORD011'', customer_name = Some ''Dan Young'', item = Some ''Mouse'',
      quantity = Some 1, price_per_unit = Some 25.00, region = Some ''West'',
      status = None\<rparr>"


definition order_without_id :: "rat sales_row" where
  "order_without_id =
     \<lparr>order_id = None, customer_name = Some ''Dan Young'', item = Some ''Mouse'',
      quantity = Some 1, price_per_unit = Some 25.00, region = Some ''West'',
      status = Some ''Pending''\<rparr>"

section \<open>Cleaning\<close>

lemma cancelled_filter_eq:
  "cancelled_filter t = filter (\<lambda>r. status r \<noteq> None \<and> status r \<noteq> Some ''Cancelled'') t"
  unfolding cancelled_filter_def df_filter_def
  by (rule filter_cong) (auto simp: sql_neq_def lit_def split: option.splits)

lemma status_na_fill: "status (na_fill_quantity v r) = status r"
  by (simp add: na_fill_quantity_def)

lemma filter_three_way:
  "length (filter (\<lambda>r. f r \<noteq> None \<and> f r \<noteq> Some c) t)
     + length (filter (\<lambda>r. f r = Some c) t)
     + length (filter (\<lambda>r. f r = None) t) = length t"
  by (induction t) auto

lemma df_filtered_orders_eq:
  "df_filtered_orders t =
     map (na_fill_quantity 0)
       (filter (\<lambda>r. status r \<noteq> None \<and> status r \<noteq> Some ''Cancelled'') t)"
  unfolding df_filtered_orders_def df_cleaned_quantity_def cancelled_filter_eq
  by (simp add: filter_map o_def status_na_fill)

text \<open>
  C3.  \<^verbatim>\<open>na.fill(0, subset=["quantity"])\<close> keeps the number of rows, puts 0 where
  \<open>quantity\<close> was null and keeps a quantity that was there, leaves the six other columns
  as they were, and leaves no null quantity behind, neither in its own output nor in the
  cleaned table.
\<close>

theorem null_fill_frame:
  "length (df_cleaned_quantity t) = length t \<and>
   map quantity (df_cleaned_quantity t) =
     map (\<lambda>r. case quantity r of None \<Rightarrow> Some 0 | Some q \<Rightarrow> Some q) t \<and>
   map order_id (df_cleaned_quantity t) = map order_id t \<and>
   map customer_name (df_cleaned_quantity t) = map customer_name t \<and>
   map item (df_cleaned_quantity t) = map item t \<and>
   map price_per_unit (df_cleaned_quantity t) = map price_per_unit t \<and>
   map region (df_cleaned_quantity t) = map region t \<and>
   map status (df_cleaned_quantity t) = map status t \<and>
   None \<notin> set (map quantity (df_cleaned_quantity t)) \<and>
   None \<notin> set (map quantity (df_filtered_orders t))"
  unfolding df_filtered_orders_def cancelled_filter_def df_filter_def df_cleaned_quantity_def
  by (auto simp: na_fill_quantity_def o_def split: option.splits)

text \<open>
  C2, as the code has it.  The condition \<^verbatim>\<open>col("status") != "Cancelled"\<close> is \<^verbatim>\<open>NULL\<close>
  on a row whose status is \<^verbatim>\<open>NULL\<close>, and \<^verbatim>\<open>filter\<close> drops such a row.  The filter keeps
  exactly the rows whose status is present and differs from \<open>''Cancelled''\<close>, unchanged and
  in their order; the cleaned table has the input's row count minus the cancelled rows
  minus the rows without status; no cancelled row is left.
\<close>

theorem cancelled_filter_spec:
  "cancelled_filter t =
     filter (\<lambda>r. status r \<noteq> None \<and> status r \<noteq> Some ''Cancelled'') t \<and>
   df_filtered_orders t =
     map (na_fill_quantity 0)
       (filter (\<lambda>r. status r \<noteq> None \<and> status r \<noteq> Some ''Cancelled'') t) \<and>
   length (df_filtered_orders t) + count_cancelled t + count_null_status t = length t \<and>
   length (df_filtered_orders t) = length t - count_cancelled t - count_null_status t \<and>
   Some ''Cancelled'' \<notin> set (map status (df_filtered_orders t))"
proof -
  have len: "length (df_filtered_orders t) + count_cancelled t + count_null_status t = length t"
    unfolding df_filtered_orders_eq count_cancelled_def count_null_status_def
    using filter_three_way [of status "''Cancelled''" t] by simp
  have no: "Some ''Cancelled'' \<notin> set (map status (df_filtered_orders t))"
    unfolding df_filtered_orders_eq by (auto simp: o_def status_na_fill)
  from len no show ?thesis
    using cancelled_filter_eq [of t] df_filtered_orders_eq [of t] by simp
qed

text \<open>
  The claim as the specification words it fails on a one-row table whose only order has no
  status: the status is not \<open>''Cancelled''\<close>, yet the row is dropped, and the cleaned table
  has 0 rows where the claim's count is 1 - 0.
\<close>

theorem cancelled_filter_drops_null_status:
  "status order_without_status \<noteq> Some ''Cancelled'' \<and>
   cancelled_filter [order_without_status] = [] \<and>
   length (df_filtered_orders [order_without_status]) \<noteq>
     length [order_without_status] - count_cancelled [order_without_status]"
  by (simp add: df_filtered_orders_eq cancelled_filter_eq count_cancelled_def
      order_without_status_def)

text \<open>
  C7.  Filtering first and filling second gives the cleaned table of the notebook, which
  fills first and filters second.
\<close>

theorem fill_filter_commute:
  "df_filtered_orders t = df_cleaned_quantity (cancelled_filter t)"
  unfolding df_filtered_orders_def df_cleaned_quantity_def cancelled_filter_def df_filter_def
  by (simp add: filter_map o_def status_na_fill)

section \<open>Feature engineering\<close>

text \<open>
  C10.  The derivation stage appends columns and does nothing else: dropping the two new
  columns from the derived table gives back the cleaned table, row by row; in particular the
  row count, the order and each of the seven original columns are those of the input.
\<close>

theorem derive_frame:
  "length (derive A t) = length t \<and>
   map sales_row.truncate (derive A t) = t \<and>
   map order_id (derive A t) = map order_id t \<and>
   map customer_name (derive A t) = map customer_name t \<and>
   map item (derive A t) = map item t \<and>
   map quantity (derive A t) = map quantity t \<and>
   map price_per_unit (derive A t) = map price_per_unit t \<and>
   map region (derive A t) = map region t \<and>
   map status (derive A t) = map status t"
  unfolding derive_def df_with_customer_full_name_def df_with_total_price_def
  by (simp add: o_def with_total_price_def with_customer_full_name_def sales_row.defs
      priced_row.defs named_row.defs map_idI)

text \<open>
  C8.  In every row of the derived table \<open>customer_full_name\<close> is \<open>customer_name\<close>: joining
  a name with the empty literal copies it, and a null name gives a null full name.
\<close>

theorem customer_full_name_copy:
  "map customer_full_name (derive A t) = map customer_name (derive A t) \<and>
   map customer_full_name (derive A t) = map customer_name t"
  unfolding derive_def df_with_customer_full_name_def df_with_total_price_def
  by (simp add: o_def with_total_price_def with_customer_full_name_def sales_row.defs
      priced_row.defs named_row.defs sql_concat_def lit_def split: option.splits)

lemmas stage_defs = derive_def df_with_customer_full_name_def df_with_total_price_def
  with_total_price_def with_customer_full_name_def sales_row.defs priced_row.defs
  named_row.defs na_fill_quantity_def spark_round_def sql_mul_def sql_cast_double_def
  sql_concat_def lit_def

subsection \<open>Rounding to cents in exact decimal arithmetic\<close>

lemma round_half_up_cents:
  assumes "x * 100 \<in> \<int>"
  shows "round_half_up 2 x = x"
proof -
  from assms obtain n :: int where n: "x * 100 = of_int n"
    by (auto elim: Ints_cases)
  have "\<bar>x\<bar> * 10 ^ 2 = \<bar>x * 100\<bar>"
    by (simp add: abs_mult)
  also have "\<dots> = of_int \<bar>n\<bar>"
    by (simp add: n)
  finally have a: "\<bar>x\<bar> * 10 ^ 2 = of_int \<bar>n\<bar>" .
  have f: "\<lfloor>(of_int \<bar>n\<bar> :: rat) + 1 / 2\<rfloor> = \<bar>n\<bar>"
    by (rule floor_unique) simp_all
  have "round_half_up 2 x = sgn x * of_int \<bar>n\<bar> / 100"
    unfolding round_half_up_def a f by simp
  also have "\<dots> = sgn x * \<bar>x * 100\<bar> / 100"
    by (simp add: n)
  also have "\<dots> = sgn x * \<bar>x\<bar>"
    by (simp add: abs_mult)
  also have "\<dots> = x"
    by (simp add: sgn_mult_abs)
  finally show ?thesis .
qed


text \<open>The rounded value is within half a cent of the argument.\<close>

lemma round_half_up_close: "\<bar>round_half_up 2 x - x\<bar> \<le> 1 / 200"
proof -
  define n :: rat where "n = of_int \<lfloor>\<bar>x\<bar> * 10 ^ 2 + 1 / 2\<rfloor>"
  have lo: "n \<le> \<bar>x\<bar> * 100 + 1 / 2"
    unfolding n_def using of_int_floor_le [of "\<bar>x\<bar> * 10 ^ 2 + 1 / 2"] by simp
  have hi: "\<bar>x\<bar> * 100 + 1 / 2 < n + 1"
    unfolding n_def using floor_correct [of "\<bar>x\<bar> * 10 ^ 2 + 1 / 2"] by simp
  have d1: "n / 100 - \<bar>x\<bar> \<le> 1 / 200"
    using lo by linarith
  have d2: "- (n / 100 - \<bar>x\<bar>) \<le> 1 / 200"
    using hi by linarith
  have d: "\<bar>n / 100 - \<bar>x\<bar>\<bar> \<le> 1 / 200"
    using d1 d2 by (rule abs_leI)
  have "round_half_up 2 x - x = sgn x * (n / 100 - \<bar>x\<bar>)"
    unfolding round_half_up_def n_def by (simp add: algebra_simps abs_sgn)
  then have "\<bar>round_half_up 2 x - x\<bar> = \<bar>sgn x\<bar> * \<bar>n / 100 - \<bar>x\<bar>\<bar>"
    by (simp add: abs_mult)
  also have "\<dots> \<le> \<bar>n / 100 - \<bar>x\<bar>\<bar>"
    by (cases "x = 0") (simp_all add: abs_sgn_eq)
  finally show ?thesis using d by simp
qed

subsection \<open>The derived table of the ten literal rows\<close>

lemma fixed_derived:
  "derive decimal_arith (df_filtered_orders raw_sales_data) =
    [\<lparr>order_id = Some ''ORD001'', customer_name = Some ''Alice Smith'', item = Some ''Laptop'',
      quantity = Some 1, price_per_unit = Some 1200.50, region = Some ''North'',
      status = Some ''Completed'', total_price = Some 1200.50,
      customer_full_name = Some ''Alice Smith''\<rparr>,
     \<lparr>order_id = Some ''ORD002'', customer_name = Some ''Bob Johnson'', item = Some ''Mouse'',
      quantity = Some 2, price_per_unit = Some 25.00, region = Some ''South'',
      status = Some ''Pending'', total_price = Some 50.00,
      customer_full_name = Some ''Bob Johnson''\<rparr>,
     \<lparr>order_id = Some ''ORD003'', customer_name = Some ''Charlie Brown'',
      item = Some ''Keyboard'', quantity = Some 1, price_per_unit = Some 75.25,
      region = Some ''East'', status = Some ''Completed'', total_price = Some 75.25,
      customer_full_name = Some ''Charlie Brown''\<rparr>,
     \<lparr>order_id = Some ''ORD004'', customer_name = Some ''Alice Smith'', item = Some ''Monitor'',
      quantity = Some 1, price_per_unit = Some 300.00, region = Some ''North'',
      status = Some ''Pending'', total_price = Some 300.00,
      customer_full_name = Some ''Alice Smith''\<rparr>,
     \<lparr>order_id = Some ''ORD006'', customer_name = Some ''Bob Johnson'',
      item = Some ''Headphones'', quantity = Some 3, price_per_unit = Some 50.00,
      region = Some ''South'', status = Some ''Completed'', total_price = Some 150.00,
      customer_full_name = Some ''Bob Johnson''\<rparr>,
     \<lparr>order_id = Some ''ORD007'', customer_name = Some ''Grace Lee'', item = Some ''Webcam'',
      quantity = Some 1, price_per_unit = Some 60.00, region = Some ''East'',
      status = Some ''Completed'', total_price = Some 60.00,
      customer_full_name = Some ''Grace Lee''\<rparr>,
     \<lparr>order_id = Some ''ORD008'', customer_name = Some ''Frank White'', item = Some ''Mouse'',
      quantity = Some 0, price_per_unit = Some 25.00, region = Some ''North'',
      status = Some ''Completed'', total_price = Some 0.00,
      customer_full_name = Some ''Frank White''\<rparr>,
     \<lparr>order_id = Some ''ORD009'', customer_name = Some ''Charlie Brown'',
      item = Some ''External SSD'', quantity = Some 1, price_per_unit = Some 99.99,
      region = Some ''East'', status = Some ''Pending'', total_price = Some 99.99,
      customer_full_name = Some ''Charlie Brown''\<rparr>,
     \<lparr>order_id = Some ''ORD010'', customer_name = Some ''Alice Smith'', item = Some ''Webcam'',
      quantity = Some 1, price_per_unit = Some 60.00, region = Some ''North'',
      status = Some ''Completed'', total_price = Some 60.00,
      customer_full_name = Some ''Alice Smith''\<rparr>]"
  unfolding df_filtered_orders_eq raw_sales_data_def
  by (simp add: stage_defs decimal_arith_def round_half_up_cents)

subsection \<open>Total price\<close>




section \<open>Aggregation\<close>

subsection \<open>Grouping in one pass\<close>

lemma group_by_Nil: "group_by key [] = []"
  by (simp add: group_by_def)

lemma group_by_snoc: "group_by key (t @ [r]) = add_to_group (key r) r (group_by key t)"
  by (simp add: group_by_def)

lemma keys_add_to_group:
  "map fst (add_to_group k r gs) =
     (if k \<in> set (map fst gs) then map fst gs else map fst gs @ [k])"
  by (induction gs) force+

lemma map_of_add_to_group:
  "map_of (add_to_group k r gs) k' =
     (if k' = k then Some ((case map_of gs k of None \<Rightarrow> [] | Some rs \<Rightarrow> rs) @ [r])
      else map_of gs k')"
  by (induction gs) auto

lemma sum_add_to_group:
  fixes h :: "'r \<Rightarrow> 'a::comm_monoid_add"
  shows "sum_list (map (\<lambda>g. sum_list (map h (snd g))) (add_to_group k r gs)) =
     sum_list (map (\<lambda>g. sum_list (map h (snd g))) gs) + h r"
  by (induction gs) (auto simp: ac_simps)


lemma keys_group_by: "set (map fst (group_by key t)) = key ` set t"
  by (induction t rule: rev_induct) (auto simp: group_by_Nil group_by_snoc keys_add_to_group)

lemma distinct_group_by: "distinct (map fst (group_by key t))"
  by (induction t rule: rev_induct) (auto simp: group_by_Nil group_by_snoc keys_add_to_group)

lemma map_of_group_by:
  "map_of (group_by key t) k =
     (if k \<in> key ` set t then Some (filter (\<lambda>r. key r = k) t) else None)"
proof (induction t rule: rev_induct)
  case Nil
  show ?case by (simp add: group_by_Nil)
next
  case (snoc r t)
  show ?case
    unfolding group_by_snoc map_of_add_to_group using snoc
    by (fastforce simp: filter_empty_conv empty_filter_conv image_iff)
qed

text \<open>A group holds the rows of its key, in table order.\<close>

lemma group_by_rows:
  assumes "(k, rs) \<in> set (group_by key t)"
  shows "rs = filter (\<lambda>r. key r = k) t"
proof -
  from assms have "map_of (group_by key t) k = Some rs"
    by (simp add: distinct_group_by)
  then show ?thesis
    by (simp add: map_of_group_by split: if_splits)
qed

lemma sum_group_by:
  fixes h :: "'r \<Rightarrow> 'a::comm_monoid_add"
  shows "sum_list (map (\<lambda>g. sum_list (map h (snd g))) (group_by key t)) = sum_list (map h t)"
  by (induction t rule: rev_induct) (simp_all add: group_by_Nil group_by_snoc sum_add_to_group)


subsection \<open>Ordering rows whose keys are distinct\<close>

lemma sum_list_insort_key:
  fixes h :: "'r \<Rightarrow> 'a::comm_monoid_add"
  shows "sum_list (map h (insort_key f x xs)) = h x + sum_list (map h xs)"
  by (induction xs) (auto simp: ac_simps)

lemma sum_list_sort_key:
  fixes h :: "'r \<Rightarrow> 'a::comm_monoid_add"
  shows "sum_list (map h (sort_key f xs)) = sum_list (map h xs)"
  by (induction xs) (auto simp: sum_list_insort_key)

lemma distinct_map_insort_key:
  "distinct (map f (insort_key f x xs)) \<longleftrightarrow> f x \<notin> f ` set xs \<and> distinct (map f xs)"
  by (induction xs) (auto simp: set_insort_key)

lemma distinct_map_sort_key:
  "distinct (map f xs) \<Longrightarrow> distinct (map f (sort_key f xs))"
  by (induction xs) (auto simp: distinct_map_insort_key)

text \<open>
  When every row is a function \<open>G\<close> of its key and the keys are distinct, the sorted table
  is \<open>G\<close> along the ascending list of the keys.
\<close>

lemma sort_key_determined:
  assumes d: "distinct (map f xs)" and g: "\<And>x. x \<in> set xs \<Longrightarrow> x = G (f x)"
  shows "sort_key f xs = map G (sorted_list_of_set (f ` set xs))"
proof -
  let ?ys = "sort_key f xs"
  have "sorted (map f ?ys)" by (rule sorted_sort_key)
  moreover have "distinct (map f ?ys)" using d by (rule distinct_map_sort_key)
  moreover have "set (map f ?ys) = f ` set xs" by simp
  ultimately have keys: "map f ?ys = sorted_list_of_set (f ` set xs)"
    by (metis sorted_list_of_set.idem_if_sorted_distinct)
  have "map (G \<circ> f) ?ys = ?ys"
    by (rule map_idI) (use g in auto)
  then have "?ys = map G (map f ?ys)" by simp
  with keys show ?thesis by simp
qed

subsection \<open>Total sales by region\<close>


subsection \<open>Orders by region and status\<close>

lemma sql_count_eq:
  "sql_count (map f rs) = sum_list (map (\<lambda>r. if f r = None then 0 else 1) rs)"
  unfolding sql_count_def by (induction rs) auto

lemma count_split:
  "sum_list (map (\<lambda>r. if f r = None then 0 else (1::nat)) rs)
     + length (filter (\<lambda>r. f r = None) rs) = length rs"
  by (induction rs) auto

text \<open>
  C5, as the code has it.  The table has one row for each (region, status) pair that
  occurs, ascending by region and then status, and \<open>number_of_orders\<close> is
  \<^verbatim>\<open>count("order_id")\<close>, the number of rows of the pair whose \<open>order_id\<close> is not null.
  The counts add up to the row count of the input minus its rows without \<open>order_id\<close>.
\<close>

theorem orders_by_status_region_spec:
  "df_orders_by_status_region d =
     map (\<lambda>(k, s). \<lparr>so_region = k, so_status = s,
                    number_of_orders =
                      sql_count
                        (map order_id (filter (\<lambda>r. region r = k \<and> status r = s) d))\<rparr>)
       (sorted_list_of_set ((\<lambda>r. (region r, status r)) ` set d)) \<and>
   sorted_wrt (<) (map (\<lambda>g. (so_region g, so_status g)) (df_orders_by_status_region d)) \<and>
   sum_list (map number_of_orders (df_orders_by_status_region d)) + count_null_order_id d
     = length d"
proof -
  let ?key = "\<lambda>r. (region r, status r)"
  let ?f = "\<lambda>g. (so_region g, so_status g)"
  let ?G = "\<lambda>(k, s). \<lparr>so_region = k, so_status = s,
                    number_of_orders =
                      sql_count
                        (map order_id (filter (\<lambda>r. region r = k \<and> status r = s) d))\<rparr>"
  let ?F = "\<lambda>((k, s), rs). \<lparr>so_region = k, so_status = s,
                             number_of_orders = sql_count (map order_id rs)\<rparr>"
  let ?xs = "map ?F (group_by ?key d)"
  have keys: "map ?f ?xs = map fst (group_by ?key d)"
    by (simp add: o_def split_def)
  have dist: "distinct (map ?f ?xs)"
    unfolding keys by (rule distinct_group_by)
  have g: "x = ?G (?f x)" if "x \<in> set ?xs" for x
  proof -
    from that obtain k s rs
      where m: "((k, s), rs) \<in> set (group_by ?key d)" and x: "x = ?F ((k, s), rs)"
      by auto
    from group_by_rows [OF m] have "rs = filter (\<lambda>r. region r = k \<and> status r = s) d"
      by simp
    with x show ?thesis by simp
  qed
  have s: "?f ` set ?xs = ?key ` set d"
  proof -
    have "?f ` set ?xs = set (map ?f ?xs)" by (simp only: set_map)
    also have "\<dots> = set (map fst (group_by ?key d))" by (simp only: keys)
    also have "\<dots> = ?key ` set d" by (rule keys_group_by)
    finally show ?thesis .
  qed
  have "sort_key ?f ?xs = map ?G (sorted_list_of_set (?f ` set ?xs))"
    by (rule sort_key_determined [OF dist g])
  then have eq: "df_orders_by_status_region d = map ?G (sorted_list_of_set (?key ` set d))"
    by (simp only: s df_orders_by_status_region_def)
  have GF: "?f (?G p) = p" for p
    by (cases p) simp
  have m: "map ?f (df_orders_by_status_region d) = sorted_list_of_set (?key ` set d)"
    unfolding eq map_map o_def GF by simp
  have "sum_list (map number_of_orders (df_orders_by_status_region d)) =
      sum_list (map number_of_orders ?xs)"
    unfolding df_orders_by_status_region_def by (rule sum_list_sort_key)
  also have "\<dots> =
      sum_list (map (\<lambda>g. sum_list (map (\<lambda>r. if order_id r = None then 0 else 1) (snd g)))
        (group_by ?key d))"
    by (simp add: o_def split_def sql_count_eq)
  also have "\<dots> = sum_list (map (\<lambda>r. if order_id r = None then 0 else 1) d)"
    by (rule sum_group_by)
  finally have c:
    "sum_list (map number_of_orders (df_orders_by_status_region d)) + count_null_order_id d
       = length d"
    unfolding count_null_order_id_def using count_split [of order_id d] by simp
  show ?thesis
    unfolding m using eq c by (simp add: strict_sorted_iff)
qed

text \<open>
  The claim as the specification words it fails on the derived table of a single order
  without identifier: the table has one row and the counts add up to 0.
\<close>

theorem orders_without_id_not_counted:
  "sum_list (map number_of_orders
      (df_orders_by_status_region
         (derive decimal_arith (df_filtered_orders [order_without_id])))) = 0 \<and>
   length (derive decimal_arith (df_filtered_orders [order_without_id])) = 1"
  unfolding df_filtered_orders_eq df_orders_by_status_region_def group_by_def
  by (simp add: stage_defs sql_count_def order_without_id_def)

subsection \<open>Regional totals against the grand total\<close>









subsection \<open>The ten literal rows\<close>

lemma fixed_by_region:
  "df_sales_by_region decimal_arith (derive decimal_arith (df_filtered_orders raw_sales_data)) =
     [\<lparr>rs_region = Some ''East'', total_regional_sales = Some 235.24\<rparr>,
      \<lparr>rs_region = Some ''North'', total_regional_sales = Some 1560.50\<rparr>,
      \<lparr>rs_region = Some ''South'', total_regional_sales = Some 200.00\<rparr>]"
  unfolding fixed_derived
  by code_simp

text \<open>
  C9.  On the ten literal rows the by-region table has one row for North, with
  \<open>total_regional_sales\<close> 1560.50.  The North rows of the derived table are ORD001, ORD004,
  ORD008 and ORD010, with total prices 1200.50, 300.00, 0.00 and 60.00; the quantity of
  ORD008, null in the input, is 0.  Every number here is a multiple of one half below
  \<open>2 ^ 53\<close>, so binary64 arithmetic computes the same values as the exact arithmetic
  of the statement.
\<close>

theorem north_total_regional_sales:
  "filter (\<lambda>g. rs_region g = Some ''North'')
     (df_sales_by_region decimal_arith
        (derive decimal_arith (df_filtered_orders raw_sales_data))) =
     [\<lparr>rs_region = Some ''North'', total_regional_sales = Some 1560.50\<rparr>] \<and>
   map (\<lambda>r. (order_id r, quantity r, total_price r))
     (filter (\<lambda>r. region r = Some ''North'')
        (derive decimal_arith (df_filtered_orders raw_sales_data))) =
     [(Some ''ORD001'', Some 1, Some 1200.50), (Some ''ORD004'', Some 1, Some 300.00),
      (Some ''ORD008'', Some 0, Some 0.00), (Some ''ORD010'', Some 1, Some 60.00)] \<and>
   length raw_sales_data = 10"
proof (intro conjI)
  show "filter (\<lambda>g. rs_region g = Some ''North'')
     (df_sales_by_region decimal_arith
        (derive decimal_arith (df_filtered_orders raw_sales_data))) =
     [\<lparr>rs_region = Some ''North'', total_regional_sales = Some 1560.50\<rparr>]"
    by (simp add: fixed_by_region)
  show "map (\<lambda>r. (order_id r, quantity r, total_price r))
     (filter (\<lambda>r. region r = Some ''North'')
        (derive decimal_arith (df_filtered_orders raw_sales_data))) =
     [(Some ''ORD001'', Some 1, Some 1200.50), (Some ''ORD004'', Some 1, Some 300.00),
      (Some ''ORD008'', Some 0, Some 0.00), (Some ''ORD010'', Some 1, Some 60.00)]"
    by (simp add: fixed_derived)
  show "length raw_sales_data = 10"
    by (simp add: raw_sales_data_def)
qed

end
